theory Spec2Isabelle
  imports Complex_Main
begin

section \<open>Data model of \<open>ETVREyeTracker\<close> (src/openxr-api-layer/ETVR.cpp)\<close>

text \<open>
  Single-precision and double-precision values are idealised as real numbers and
  \<open>M_PI\<close> as \<open>pi\<close>: the development is about the arithmetic the source writes, not
  about its rounding. A \<open>std::chrono\<close> time point is its tick count (nanoseconds since
  the clock's epoch), an \<open>XrTime\<close> is an integer; tick counts stay far from the
  bounds of their 64-bit representation, so differences are taken in the integers.
\<close>

type_synonym time_point = int
type_synonym XrTime = int

record XrVector3f =
  x :: real
  y :: real
  z :: real

text \<open>The data members of the tracker (lines 154-162). The thread, the socket and the
  mutex are library objects: they are not part of the record, and every function is
  modelled as one atomic step on it. \<open>ETVREyeTracker_init\<close> is the tracker as the
  default member initialisers leave it.\<close>

record ETVREyeTracker =
  m_started :: bool
  m_latestGaze :: XrVector3f
  m_latestLeftX :: "real option"
  m_latestRightX :: "real option"
  m_latestY :: "real option"
  m_lastReceivedTime :: time_point

definition ETVREyeTracker_init :: ETVREyeTracker where
  "ETVREyeTracker_init =
     \<lparr>m_started = False,
      m_latestGaze = \<lparr>x = 0, y = 0, z = 0\<rparr>,
      m_latestLeftX = None,
      m_latestRightX = None,
      m_latestY = None,
      m_lastReceivedTime = 0\<rparr>"

section \<open>Received messages\<close>

text \<open>An OSC message as \<open>ProcessMessage\<close> receives it: an address pattern and a list
  of typed arguments.\<close>

datatype osc_arg =
    OscFloat real
  | OscInt32 int
  | OscDouble real
  | OscString string
  | OscBool bool
  | OscNil

record ReceivedMessage =
  AddressPattern :: string
  ArgumentStream :: "osc_arg list"

datatype osc_Exception =
    MissingArgumentException
  | WrongArgumentTypeException
  | ExcessArgumentException
  | MalformedMessageException

text \<open>Modelled from the spec: the argument extraction \<open>args >> f >> osc::EndMessage\<close> of
  the OSC library, whose code is not among the sources. Each recognised message carries
  exactly one float argument; a wrong argument type or count raises a protocol error
  (an \<open>osc::Exception\<close>), and nothing is assigned before the whole extraction succeeded.\<close>

fun read_float :: "osc_arg list \<Rightarrow> osc_Exception + real" where
  "read_float [] = Inl MissingArgumentException"
| "read_float (OscFloat v # rest) =
     (if rest = [] then Inr v else Inl ExcessArgumentException)"
| "read_float (a # rest) = Inl WrongArgumentTypeException"

section \<open>\<open>ProcessMessage\<close> (lines 82-152)\<close>

text \<open>The three address tests of lines 88-123, in the source's order. Each block extracts
  the float (which may throw) and then stores it in its channel; a thrown exception
  carries the state it leaves behind. The trace logging has no effect on the tracker.\<close>

definition on_EyesY ::
  "ReceivedMessage \<Rightarrow> ETVREyeTracker \<Rightarrow> (osc_Exception \<times> ETVREyeTracker) + ETVREyeTracker" where
  "on_EyesY m s =
     (if AddressPattern m = ''/avatar/parameters/EyesY'' then
        (case read_float (ArgumentStream m) of
           Inl e \<Rightarrow> Inl (e, s)
         | Inr ytemp \<Rightarrow> Inr (s\<lparr>m_latestY := Some ytemp\<rparr>))
      else Inr s)"

definition on_LeftEyeX ::
  "ReceivedMessage \<Rightarrow> ETVREyeTracker \<Rightarrow> (osc_Exception \<times> ETVREyeTracker) + ETVREyeTracker" where
  "on_LeftEyeX m s =
     (if AddressPattern m = ''/avatar/parameters/LeftEyeX'' then
        (case read_float (ArgumentStream m) of
           Inl e \<Rightarrow> Inl (e, s)
         | Inr xLtemp \<Rightarrow> Inr (s\<lparr>m_latestLeftX := Some xLtemp\<rparr>))
      else Inr s)"

definition on_RightEyeX ::
  "ReceivedMessage \<Rightarrow> ETVREyeTracker \<Rightarrow> (osc_Exception \<times> ETVREyeTracker) + ETVREyeTracker" where
  "on_RightEyeX m s =
     (if AddressPattern m = ''/avatar/parameters/RightEyeX'' then
        (case read_float (ArgumentStream m) of
           Inl e \<Rightarrow> Inl (e, s)
         | Inr xRtemp \<Rightarrow> Inr (s\<lparr>m_latestRightX := Some xRtemp\<rparr>))
      else Inr s)"

definition record_channels ::
  "ReceivedMessage \<Rightarrow> ETVREyeTracker \<Rightarrow> (osc_Exception \<times> ETVREyeTracker) + ETVREyeTracker" where
  "record_channels m s =
     (case on_EyesY m s of
        Inl p \<Rightarrow> Inl p
      | Inr s1 \<Rightarrow>
          (case on_LeftEyeX m s1 of
             Inl p \<Rightarrow> Inl p
           | Inr s2 \<Rightarrow> on_RightEyeX m s2))"

text \<open>Lines 129-137: the two angles and the vector built from them.\<close>

definition unitVector :: "real \<Rightarrow> real \<Rightarrow> real \<Rightarrow> XrVector3f" where
  "unitVector latestRightX latestLeftX latestY =
     (let angleHorizontal = - (latestRightX * pi / 4 + latestLeftX * pi / 4) / 2;
          angleVertical = latestY * pi / 4
      in \<lparr>x = sin angleHorizontal * cos angleVertical,
          y = sin angleVertical,
          z = - cos angleHorizontal * cos angleVertical\<rparr>)"

text \<open>Lines 127-146: when the three samples are present, the vector and the time stamp
  are stored and the samples are reset the way the source resets them
  (\<open>m_latestLeftX\<close> twice, then \<open>m_latestRightX\<close>).\<close>

definition combine :: "time_point \<Rightarrow> ETVREyeTracker \<Rightarrow> ETVREyeTracker" where
  "combine now s =
     (case m_latestY s of
        None \<Rightarrow> s
      | Some latestY \<Rightarrow>
          (case m_latestLeftX s of
             None \<Rightarrow> s
           | Some latestLeftX \<Rightarrow>
               (case m_latestRightX s of
                  None \<Rightarrow> s
                | Some latestRightX \<Rightarrow>
                    (((((s\<lparr>m_latestGaze := unitVector latestRightX latestLeftX latestY\<rparr>)
                        \<lparr>m_lastReceivedTime := now\<rparr>)
                        \<lparr>m_latestLeftX := None\<rparr>)
                        \<lparr>m_latestLeftX := None\<rparr>)
                        \<lparr>m_latestRightX := None\<rparr>))))"

text \<open>The body of the \<open>try\<close> block; \<open>now\<close> is the clock reading of line 85.\<close>

definition try_block ::
  "time_point \<Rightarrow> ReceivedMessage \<Rightarrow> ETVREyeTracker \<Rightarrow>
     (osc_Exception \<times> ETVREyeTracker) + ETVREyeTracker" where
  "try_block now m s =
     (case record_channels m s of
        Inl p \<Rightarrow> Inl p
      | Inr s3 \<Rightarrow> Inr (combine now s3))"

text \<open>The handler of line 149 catches every \<open>osc::Exception\<close> and only logs it.\<close>

definition ProcessMessage :: "time_point \<Rightarrow> ReceivedMessage \<Rightarrow> ETVREyeTracker \<Rightarrow> ETVREyeTracker" where
  "ProcessMessage now m s =
     (case try_block now m s of
        Inl (e, s') \<Rightarrow> s'
      | Inr s' \<Rightarrow> s')"

text \<open>The listening thread handles one datagram after the other; each comes with the
  clock reading taken when it is processed.\<close>

fun run :: "(time_point \<times> ReceivedMessage) list \<Rightarrow> ETVREyeTracker \<Rightarrow> ETVREyeTracker" where
  "run [] s = s"
| "run ((now, m) # ms) s = run ms (ProcessMessage now m s)"

section \<open>The receive loop (line 53)\<close>

text \<open>What the socket receives: a datagram whose bytes decode to a message, or one whose
  encoding is corrupt.\<close>

datatype datagram = WellFormed ReceivedMessage | CorruptEncoding

text \<open>Modelled from the spec: the packet decoder of the OSC library, whose code is not
  among the sources. A datagram with a corrupt encoding raises a protocol error (an
  \<open>osc::Exception\<close>). \<open>ProcessMessage\<close> takes the message already built (line 82): the
  decoder has run before \<open>ProcessMessage\<close> is entered, so its error is raised outside the
  \<open>try\<close> block of lines 83-151, whose handler is the only one of the source.\<close>

definition ProcessPacket ::
  "time_point \<Rightarrow> datagram \<Rightarrow> ETVREyeTracker \<Rightarrow> osc_Exception + ETVREyeTracker" where
  "ProcessPacket now d s =
     (case d of
        CorruptEncoding \<Rightarrow> Inl MalformedMessageException
      | WellFormed m \<Rightarrow> Inr (ProcessMessage now m s))"

text \<open>The thread body of line 53 is the call of the receive loop and nothing else: an
  error that leaves \<open>ProcessPacket\<close> leaves the loop and the thread body with it, and the
  datagrams after it are not processed.\<close>

fun Run :: "(time_point \<times> datagram) list \<Rightarrow> ETVREyeTracker \<Rightarrow> osc_Exception + ETVREyeTracker" where
  "Run [] s = Inr s"
| "Run ((now, d) # ds) s =
     (case ProcessPacket now d s of
        Inl e \<Rightarrow> Inl e
      | Inr s' \<Rightarrow> Run ds s')"

section \<open>The polling interface (lines 60-76)\<close>

text \<open>\<open>now\<close> is the clock reading of line 61; the parameter \<open>time\<close> is not used by the
  source.\<close>

definition isGazeAvailable :: "XrTime \<Rightarrow> time_point \<Rightarrow> ETVREyeTracker \<Rightarrow> bool" where
  "isGazeAvailable time now s = (now - m_lastReceivedTime s < 1000000000)"

text \<open>\<open>getGaze\<close> writes through the reference \<open>unitVector\<close> only when it returns true:
  the result is the returned flag, the content of the out parameter after the call, and
  the tracker after the call.\<close>

definition getGaze ::
  "XrTime \<Rightarrow> time_point \<Rightarrow> ETVREyeTracker \<Rightarrow> XrVector3f \<Rightarrow> bool \<times> XrVector3f \<times> ETVREyeTracker" where
  "getGaze time now s out =
     (if \<not> isGazeAvailable time now s then (False, out, s)
      else (True, m_latestGaze s, s))"

section \<open>Vocabulary of the properties\<close>

definition all_present :: "ETVREyeTracker \<Rightarrow> bool" where
  "all_present s =
     (m_latestY s \<noteq> None \<and> m_latestLeftX s \<noteq> None \<and> m_latestRightX s \<noteq> None)"

definition msg_EyesY :: "real \<Rightarrow> ReceivedMessage" where
  "msg_EyesY v = \<lparr>AddressPattern = ''/avatar/parameters/EyesY'', ArgumentStream = [OscFloat v]\<rparr>"

definition msg_LeftEyeX :: "real \<Rightarrow> ReceivedMessage" where
  "msg_LeftEyeX v = \<lparr>AddressPattern = ''/avatar/parameters/LeftEyeX'', ArgumentStream = [OscFloat v]\<rparr>"

definition msg_RightEyeX :: "real \<Rightarrow> ReceivedMessage" where
  "msg_RightEyeX v = \<lparr>AddressPattern = ''/avatar/parameters/RightEyeX'', ArgumentStream = [OscFloat v]\<rparr>"

text \<open>A message completes a triple when, after its value has been recorded, the three
  samples are present: the test of line 127.\<close>

definition completes :: "ReceivedMessage \<Rightarrow> ETVREyeTracker \<Rightarrow> bool" where
  "completes m s =
     (case record_channels m s of Inl p \<Rightarrow> False | Inr s1 \<Rightarrow> all_present s1)"

text \<open>What a message combines, if anything: the time stamp and the vector computed from
  the three samples that are present once its value has been recorded.\<close>

definition combination ::
  "time_point \<Rightarrow> ReceivedMessage \<Rightarrow> ETVREyeTracker \<Rightarrow> (time_point \<times> XrVector3f) option" where
  "combination now m s =
     (case record_channels m s of
        Inl p \<Rightarrow> None
      | Inr s1 \<Rightarrow>
          (case m_latestY s1 of
             None \<Rightarrow> None
           | Some V \<Rightarrow>
               (case m_latestLeftX s1 of
                  None \<Rightarrow> None
                | Some L \<Rightarrow>
                    (case m_latestRightX s1 of
                       None \<Rightarrow> None
                     | Some R \<Rightarrow> Some (now, unitVector R L V)))))"

text \<open>The last combination of a run, \<open>None\<close> when no message of the run completed a
  triple.\<close>

fun last_combination ::
  "(time_point \<times> ReceivedMessage) list \<Rightarrow> ETVREyeTracker \<Rightarrow> (time_point \<times> XrVector3f) option" where
  "last_combination [] s = None"
| "last_combination ((now, m) # ms) s =
     (case last_combination ms (ProcessMessage now m s) of
        Some r \<Rightarrow> Some r
      | None \<Rightarrow> combination now m s)"

definition recognized :: "ReceivedMessage \<Rightarrow> bool" where
  "recognized m =
     (AddressPattern m = ''/avatar/parameters/EyesY''
      \<or> AddressPattern m = ''/avatar/parameters/LeftEyeX''
      \<or> AddressPattern m = ''/avatar/parameters/RightEyeX'')"

definition malformed :: "ReceivedMessage \<Rightarrow> bool" where
  "malformed m = (case read_float (ArgumentStream m) of Inl e \<Rightarrow> True | Inr v \<Rightarrow> False)"

section \<open>Life cycle (lines 45-58)\<close>

text \<open>The socket and the thread are library objects; the life-cycle functions are
  modelled by the calls they make on them, in order, and the tracker they leave.
  \<open>listening\<close> reads such a sequence of calls: the thread runs the receive loop from the
  moment it is spawned until a \<open>join\<close> on it has returned.\<close>

type_synonym XrSession = nat

datatype thread_call = Spawn_Run | AsynchronousBreak | Join

definition start :: "XrSession \<Rightarrow> ETVREyeTracker \<Rightarrow> thread_call list \<times> ETVREyeTracker" where
  "start session s = ([Spawn_Run], s\<lparr>m_started := True\<rparr>)"

definition stop :: "ETVREyeTracker \<Rightarrow> thread_call list \<times> ETVREyeTracker" where
  "stop s = ([], s)"

definition destructor :: "ETVREyeTracker \<Rightarrow> thread_call list" where
  "destructor s = (if m_started s then [AsynchronousBreak, Join] else [])"

fun listening :: "thread_call list \<Rightarrow> bool \<Rightarrow> bool" where
  "listening [] r = r"
| "listening (Spawn_Run # cs) r = listening cs True"
| "listening (AsynchronousBreak # cs) r = listening cs r"
| "listening (Join # cs) r = listening cs False"

text \<open>The tracker once it has been constructed and started: the state in which the
  listening thread handles its first datagram.\<close>

definition started :: "XrSession \<Rightarrow> ETVREyeTracker" where
  "started session = snd (start session ETVREyeTracker_init)"

section \<open>Basic facts about \<open>ProcessMessage\<close>\<close>

lemma record_channels_throw_state:
  "record_channels m s = Inl (e, s1) \<Longrightarrow> s1 = s"
  by (auto simp: record_channels_def on_EyesY_def on_LeftEyeX_def on_RightEyeX_def
           split: if_splits sum.splits)

lemma record_channels_gaze:
  "record_channels m s = Inr s1 \<Longrightarrow>
     m_latestGaze s1 = m_latestGaze s \<and> m_lastReceivedTime s1 = m_lastReceivedTime s
     \<and> m_started s1 = m_started s"
  by (auto simp: record_channels_def on_EyesY_def on_LeftEyeX_def on_RightEyeX_def
           split: if_splits sum.splits)

lemma ProcessMessage_throw:
  "record_channels m s = Inl (e, s1) \<Longrightarrow> ProcessMessage now m s = s"
  using record_channels_throw_state [of m s e s1]
  by (simp add: ProcessMessage_def try_block_def)

lemma ProcessMessage_incomplete:
  "record_channels m s = Inr s1 \<Longrightarrow> \<not> all_present s1 \<Longrightarrow> ProcessMessage now m s = s1"
  by (auto simp: ProcessMessage_def try_block_def combine_def all_present_def
           split: option.splits)

lemma ProcessMessage_complete:
  "record_channels m s = Inr s1 \<Longrightarrow> m_latestLeftX s1 = Some L \<Longrightarrow>
   m_latestRightX s1 = Some R \<Longrightarrow> m_latestY s1 = Some V \<Longrightarrow>
   ProcessMessage now m s =
     s1\<lparr>m_latestGaze := unitVector R L V, m_lastReceivedTime := now,
        m_latestLeftX := None, m_latestRightX := None\<rparr>"
  by (simp add: ProcessMessage_def try_block_def combine_def)

section \<open>The combination\<close>

lemma unitVector_norm:
  "(x (unitVector R L V))\<^sup>2 + (y (unitVector R L V))\<^sup>2 + (z (unitVector R L V))\<^sup>2 = 1"
proof -
  define a where "a = - (R * pi / 4 + L * pi / 4) / 2"
  define b where "b = V * pi / 4"
  have "(sin a * cos b)\<^sup>2 + (sin b)\<^sup>2 + (- cos a * cos b)\<^sup>2
        = (1 - (cos a)\<^sup>2) * (cos b)\<^sup>2 + (1 - (cos b)\<^sup>2) + (cos a)\<^sup>2 * (cos b)\<^sup>2"
    by (simp only: power_mult_distrib power2_minus sin_squared_eq)
  also have "\<dots> = 1" by (simp add: algebra_simps)
  finally show ?thesis
    by (simp add: unitVector_def Let_def a_def b_def)
qed

lemma run_EyesY_LeftEyeX:
  "run [(t1, msg_EyesY V), (t2, msg_LeftEyeX L)] (started 7) =
     (started 7)\<lparr>m_latestY := Some V, m_latestLeftX := Some L\<rparr>"
  by (simp add: ProcessMessage_def try_block_def record_channels_def on_EyesY_def
      on_LeftEyeX_def on_RightEyeX_def combine_def msg_EyesY_def msg_LeftEyeX_def
      started_def start_def ETVREyeTracker_init_def)

lemma record_RightEyeX:
  "record_channels (msg_RightEyeX R) s = Inr (s\<lparr>m_latestRightX := Some R\<rparr>)"
  by (simp add: record_channels_def on_EyesY_def on_LeftEyeX_def on_RightEyeX_def msg_RightEyeX_def)

lemma run_three_zero:
  "run [(1, msg_EyesY 0), (2, msg_LeftEyeX 0), (3, msg_RightEyeX 0)] (started 7)
     = (started 7)\<lparr>m_latestGaze := \<lparr>x = 0, y = 0, z = - 1\<rparr>,
          m_lastReceivedTime := 3, m_latestY := Some 0\<rparr>"
  by (simp add: ProcessMessage_def try_block_def record_channels_def on_EyesY_def
      on_LeftEyeX_def on_RightEyeX_def combine_def msg_EyesY_def msg_LeftEyeX_def
      msg_RightEyeX_def unitVector_def started_def start_def ETVREyeTracker_init_def)

text \<open>
  Claim C1. Whenever the three samples are present after a message has been recorded,
  the vector stored by \<open>ProcessMessage\<close> is the one of the formula
  \<open>angleHorizontal = -(R (\<pi>/4) + L (\<pi>/4)) / 2\<close>, \<open>angleVertical = V (\<pi>/4)\<close>,
  \<open>x = sin angleHorizontal cos angleVertical\<close>, \<open>y = sin angleVertical\<close>,
  \<open>z = - cos angleHorizontal cos angleVertical\<close>, for every \<open>L\<close>, \<open>R\<close>, \<open>V\<close>, every
  state and every message: there is no other branch and nothing to configure.
\<close>

theorem C1_combination_formula:
  assumes "record_channels m s = Inr s1"
    and "m_latestLeftX s1 = Some L" and "m_latestRightX s1 = Some R"
    and "m_latestY s1 = Some V"
  shows "m_latestGaze (ProcessMessage now m s) =
           \<lparr>x = sin (- (R * (pi / 4) + L * (pi / 4)) / 2) * cos (V * (pi / 4)),
            y = sin (V * (pi / 4)),
            z = - cos (- (R * (pi / 4) + L * (pi / 4)) / 2) * cos (V * (pi / 4))\<rparr>"
  using ProcessMessage_complete [OF assms, of now]
  by (simp add: unitVector_def Let_def)

theorem C1_combination_formula_witness:
  "record_channels (msg_RightEyeX 1)
      (run [(1, msg_EyesY 0), (2, msg_LeftEyeX 1)] (started 7))
     = Inr ((started 7)\<lparr>m_latestY := Some 0, m_latestLeftX := Some 1, m_latestRightX := Some 1\<rparr>)
   \<and> m_latestGaze (ProcessMessage 3 (msg_RightEyeX 1)
        (run [(1, msg_EyesY 0), (2, msg_LeftEyeX 1)] (started 7)))
     = \<lparr>x = - (sqrt 2 / 2), y = 0, z = - (sqrt 2 / 2)\<rparr>"
proof -
  let ?s = "run [(1, msg_EyesY 0), (2, msg_LeftEyeX 1)] (started 7)"
  let ?s1 = "(started 7)\<lparr>m_latestY := Some 0, m_latestLeftX := Some 1, m_latestRightX := Some 1\<rparr>"
  have r: "record_channels (msg_RightEyeX 1) ?s = Inr ?s1"
    unfolding run_EyesY_LeftEyeX by (simp add: record_RightEyeX)
  from C1_combination_formula [OF r, of 1 1 0 3]
  have "m_latestGaze (ProcessMessage 3 (msg_RightEyeX 1) ?s)
     = \<lparr>x = - (sqrt 2 / 2), y = 0, z = - (sqrt 2 / 2)\<rparr>"
    by (simp add: sin_45 cos_45)
  with r show ?thesis by simp
qed

text \<open>
  Claim C7. For samples \<open>L\<close>, \<open>R\<close>, \<open>V\<close> in \<open>[-1, 1]\<close> the stored vector has squared
  magnitude \<open>x\<^sup>2 + y\<^sup>2 + z\<^sup>2 = 1\<close>; the source does not renormalise, the identity
  follows from \<open>sin\<^sup>2 + cos\<^sup>2 = 1\<close> (in real arithmetic).
\<close>

theorem C7_unit_magnitude:
  assumes "- 1 \<le> L" and "L \<le> 1" and "- 1 \<le> R" and "R \<le> 1" and "- 1 \<le> V" and "V \<le> 1"
    and "record_channels m s = Inr s1"
    and "m_latestLeftX s1 = Some L" and "m_latestRightX s1 = Some R"
    and "m_latestY s1 = Some V"
  shows "(x (m_latestGaze (ProcessMessage now m s)))\<^sup>2
       + (y (m_latestGaze (ProcessMessage now m s)))\<^sup>2
       + (z (m_latestGaze (ProcessMessage now m s)))\<^sup>2 = 1"
proof -
  have "m_latestGaze (ProcessMessage now m s) = unitVector R L V"
    using ProcessMessage_complete [OF assms(7-10), of now] by simp
  then show ?thesis
    by (simp only: unitVector_norm)
qed

theorem C7_unit_magnitude_witness:
  "- 1 \<le> (1/2 :: real) \<and> (1/2 :: real) \<le> 1 \<and> - 1 \<le> (- 1 :: real) \<and> (- 1 :: real) \<le> 1
   \<and> - 1 \<le> (1/4 :: real) \<and> (1/4 :: real) \<le> 1
   \<and> record_channels (msg_RightEyeX (- 1))
        (run [(1, msg_EyesY (1/4)), (2, msg_LeftEyeX (1/2))] (started 7))
       = Inr ((started 7)\<lparr>m_latestY := Some (1/4), m_latestLeftX := Some (1/2),
                m_latestRightX := Some (- 1)\<rparr>)
   \<and> (x (m_latestGaze (ProcessMessage 3 (msg_RightEyeX (- 1))
          (run [(1, msg_EyesY (1/4)), (2, msg_LeftEyeX (1/2))] (started 7)))))\<^sup>2
     + (y (m_latestGaze (ProcessMessage 3 (msg_RightEyeX (- 1))
          (run [(1, msg_EyesY (1/4)), (2, msg_LeftEyeX (1/2))] (started 7)))))\<^sup>2
     + (z (m_latestGaze (ProcessMessage 3 (msg_RightEyeX (- 1))
          (run [(1, msg_EyesY (1/4)), (2, msg_LeftEyeX (1/2))] (started 7)))))\<^sup>2 = 1"
proof -
  let ?s = "run [(1, msg_EyesY (1/4)), (2, msg_LeftEyeX (1/2))] (started 7)"
  let ?s1 = "(started 7)\<lparr>m_latestY := Some (1/4), m_latestLeftX := Some (1/2),
                m_latestRightX := Some (- 1)\<rparr>"
  have r: "record_channels (msg_RightEyeX (- 1)) ?s = Inr ?s1"
    unfolding run_EyesY_LeftEyeX by (simp add: record_RightEyeX)
  have "(x (m_latestGaze (ProcessMessage 3 (msg_RightEyeX (- 1)) ?s)))\<^sup>2
      + (y (m_latestGaze (ProcessMessage 3 (msg_RightEyeX (- 1)) ?s)))\<^sup>2
      + (z (m_latestGaze (ProcessMessage 3 (msg_RightEyeX (- 1)) ?s)))\<^sup>2 = 1"
    by (rule C7_unit_magnitude [where L = "1/2" and R = "- 1" and V = "1/4", OF _ _ _ _ _ _ r])
       simp_all
  with r show ?thesis by simp
qed

section \<open>The samples after a combination\<close>

text \<open>A combination resets the two horizontal samples, and one message records at most
  one of them: the message that follows a combination never completes a triple.\<close>

lemma record_channels_one_horizontal:
  assumes "record_channels m s = Inr s1"
    and "m_latestLeftX s = None" and "m_latestRightX s = None"
  shows "m_latestLeftX s1 = None \<or> m_latestRightX s1 = None"
proof (cases "AddressPattern m = ''/avatar/parameters/LeftEyeX''")
  case True
  with assms show ?thesis
    by (auto simp: record_channels_def on_EyesY_def on_LeftEyeX_def on_RightEyeX_def
             split: sum.splits)
next
  case False
  with assms show ?thesis
    by (auto simp: record_channels_def on_EyesY_def on_LeftEyeX_def on_RightEyeX_def
             split: sum.splits if_splits)
qed

lemma single_message_after_combination:
  assumes "completes m s"
  shows "\<not> completes m' (ProcessMessage now m s)"
proof -
  from assms obtain s1 where r: "record_channels m s = Inr s1" and a: "all_present s1"
    by (cases "record_channels m s") (simp_all add: completes_def)
  from a obtain L R V where
    "m_latestLeftX s1 = Some L" "m_latestRightX s1 = Some R" "m_latestY s1 = Some V"
    by (auto simp: all_present_def)
  from ProcessMessage_complete [OF r this, of now]
  have n: "m_latestLeftX (ProcessMessage now m s) = None"
          "m_latestRightX (ProcessMessage now m s) = None"
    by simp_all
  show ?thesis
  proof (cases "record_channels m' (ProcessMessage now m s)")
    case (Inl p)
    then show ?thesis by (simp add: completes_def)
  next
    case (Inr s3)
    from record_channels_one_horizontal [OF Inr n] Inr show ?thesis
      by (auto simp: completes_def all_present_def)
  qed
qed

text \<open>
  Claim C2 says that a combination leaves the three samples absent. The source resets
  \<open>m_latestLeftX\<close> twice and \<open>m_latestRightX\<close> once, and never \<open>m_latestY\<close>: after the
  three recognised messages, once each, on a started tracker the combination has happened
  (the vector is \<open>(0, 0, -1)\<close>, stamped with the time of the third message), the two
  horizontal samples are absent and the vertical sample is still present.
\<close>

theorem C2_vertical_sample_survives:
  "m_latestGaze (run [(1, msg_EyesY 0), (2, msg_LeftEyeX 0), (3, msg_RightEyeX 0)] (started 7))
     = \<lparr>x = 0, y = 0, z = - 1\<rparr>
   \<and> m_lastReceivedTime (run [(1, msg_EyesY 0), (2, msg_LeftEyeX 0), (3, msg_RightEyeX 0)] (started 7))
     = 3
   \<and> m_latestLeftX (run [(1, msg_EyesY 0), (2, msg_LeftEyeX 0), (3, msg_RightEyeX 0)] (started 7))
     = None
   \<and> m_latestRightX (run [(1, msg_EyesY 0), (2, msg_LeftEyeX 0), (3, msg_RightEyeX 0)] (started 7))
     = None
   \<and> m_latestY (run [(1, msg_EyesY 0), (2, msg_LeftEyeX 0), (3, msg_RightEyeX 0)] (started 7))
     = Some 0"
  unfolding run_three_zero by (simp add: started_def start_def ETVREyeTracker_init_def)

section \<open>The frame of \<open>ProcessMessage\<close>\<close>

text \<open>
  Claim C10. A message that does not leave the three samples present (it throws, or at
  least one sample is absent once its value has been recorded) changes neither
  \<open>m_latestGaze\<close> nor \<open>m_lastReceivedTime\<close>.
\<close>

theorem C10_gaze_frame:
  "\<not> completes m s \<Longrightarrow>
     m_latestGaze (ProcessMessage now m s) = m_latestGaze s
     \<and> m_lastReceivedTime (ProcessMessage now m s) = m_lastReceivedTime s"
proof (cases "record_channels m s")
  case (Inl p)
  then show ?thesis
    using ProcessMessage_throw [of m s "fst p" "snd p" now] by simp
next
  case (Inr s1)
  assume "\<not> completes m s"
  with Inr have "\<not> all_present s1" by (simp add: completes_def)
  with Inr show ?thesis
    using ProcessMessage_incomplete [of m s s1 now] record_channels_gaze [of m s s1] by simp
qed

theorem C10_gaze_frame_witness:
  "\<not> completes (msg_LeftEyeX 1) (run [(1, msg_EyesY 0), (2, msg_LeftEyeX 0), (3, msg_RightEyeX 0)] (started 7))
   \<and> m_latestGaze (ProcessMessage 4 (msg_LeftEyeX 1)
        (run [(1, msg_EyesY 0), (2, msg_LeftEyeX 0), (3, msg_RightEyeX 0)] (started 7)))
       = \<lparr>x = 0, y = 0, z = - 1\<rparr>
   \<and> m_lastReceivedTime (ProcessMessage 4 (msg_LeftEyeX 1)
        (run [(1, msg_EyesY 0), (2, msg_LeftEyeX 0), (3, msg_RightEyeX 0)] (started 7)))
       = 3"
proof -
  let ?s = "run [(1, msg_EyesY 0), (2, msg_LeftEyeX 0), (3, msg_RightEyeX 0)] (started 7)"
  have s: "?s = (started 7)\<lparr>m_latestGaze := \<lparr>x = 0, y = 0, z = - 1\<rparr>,
          m_lastReceivedTime := 3, m_latestY := Some 0\<rparr>"
    by (rule run_three_zero)
  have n: "\<not> completes (msg_LeftEyeX 1) ?s"
    unfolding s
    by (simp add: completes_def record_channels_def on_EyesY_def on_LeftEyeX_def
        on_RightEyeX_def msg_LeftEyeX_def all_present_def started_def start_def ETVREyeTracker_init_def)
  from C10_gaze_frame [OF n, of 4] show ?thesis
    using n unfolding s by simp
qed

section \<open>Runs of the listening thread\<close>

lemma started_fields:
  "m_latestGaze (started n) = \<lparr>x = 0, y = 0, z = 0\<rparr>"
  "m_lastReceivedTime (started n) = 0"
  "m_latestLeftX (started n) = None"
  "m_latestRightX (started n) = None"
  "m_latestY (started n) = None"
  "m_started (started n) = True"
  by (simp_all add: started_def start_def ETVREyeTracker_init_def)

lemma ProcessMessage_gaze_time:
  "m_latestGaze (ProcessMessage now m s) =
      (case combination now m s of None \<Rightarrow> m_latestGaze s | Some (t, g) \<Rightarrow> g)
   \<and> m_lastReceivedTime (ProcessMessage now m s) =
      (case combination now m s of None \<Rightarrow> m_lastReceivedTime s | Some (t, g) \<Rightarrow> t)"
proof (cases "record_channels m s")
  case (Inl p)
  then show ?thesis
    using ProcessMessage_throw [of m s "fst p" "snd p" now] by (simp add: combination_def)
next
  case (Inr s1)
  then show ?thesis
    using record_channels_gaze [of m s s1]
    by (simp add: ProcessMessage_def try_block_def combine_def combination_def
             split: option.splits)
qed

lemma run_last_combination:
  "m_latestGaze (run ms s) =
      (case last_combination ms s of None \<Rightarrow> m_latestGaze s | Some (t, g) \<Rightarrow> g)
   \<and> m_lastReceivedTime (run ms s) =
      (case last_combination ms s of None \<Rightarrow> m_lastReceivedTime s | Some (t, g) \<Rightarrow> t)"
proof (induction ms arbitrary: s)
  case Nil
  show ?case by simp
next
  case (Cons a ms)
  obtain now m where a: "a = (now, m)" by (cases a)
  show ?case
  proof (cases "last_combination ms (ProcessMessage now m s)")
    case None
    with Cons [of "ProcessMessage now m s"] a show ?thesis
      by (simp add: ProcessMessage_gaze_time)
  next
    case (Some r)
    with Cons [of "ProcessMessage now m s"] a show ?thesis
      by simp
  qed
qed

lemma last_three_zero:
  "last_combination [(1, msg_EyesY 0), (2, msg_LeftEyeX 0), (3, msg_RightEyeX 0)] (started 7)
    = Some (3, \<lparr>x = 0, y = 0, z = - 1\<rparr>)"
  by (simp add: combination_def ProcessMessage_def try_block_def record_channels_def on_EyesY_def
      on_LeftEyeX_def on_RightEyeX_def combine_def msg_EyesY_def msg_LeftEyeX_def
      msg_RightEyeX_def unitVector_def started_def start_def ETVREyeTracker_init_def)

lemma ProcessMessage_not_all_present:
  "\<not> all_present s \<Longrightarrow> \<not> all_present (ProcessMessage now m s)"
proof (cases "record_channels m s")
  case (Inl p)
  assume "\<not> all_present s"
  with Inl show ?thesis
    using ProcessMessage_throw [of m s "fst p" "snd p" now] by simp
next
  case (Inr s1)
  then show ?thesis
    by (auto simp: ProcessMessage_def try_block_def combine_def all_present_def
             split: option.splits)
qed

lemma run_not_all_present:
  "\<not> all_present s \<Longrightarrow> \<not> all_present (run ms s)"
proof (induction ms arbitrary: s)
  case Nil
  then show ?case by simp
next
  case (Cons a ms)
  obtain now m where a: "a = (now, m)" by (cases a)
  from Cons.prems have "\<not> all_present (ProcessMessage now m s)"
    by (rule ProcessMessage_not_all_present)
  then have "\<not> all_present (run ms (ProcessMessage now m s))"
    by (rule Cons.IH)
  with a show ?case by simp
qed

lemma started_not_all_present: "\<not> all_present (started n)"
  by (simp add: all_present_def started_fields)

lemma run_append: "run (ms @ ms') s = run ms' (run ms s)"
  by (induction ms arbitrary: s) auto

lemma record_channels_unrecognized:
  "\<not> recognized m \<Longrightarrow> record_channels m s = Inr s"
  by (simp add: recognized_def record_channels_def on_EyesY_def on_LeftEyeX_def
      on_RightEyeX_def)

lemma record_channels_malformed:
  assumes "recognized m" and "read_float (ArgumentStream m) = Inl e"
  shows "record_channels m s = Inl (e, s)"
proof -
  consider "AddressPattern m = ''/avatar/parameters/EyesY''"
    | "AddressPattern m = ''/avatar/parameters/LeftEyeX''"
    | "AddressPattern m = ''/avatar/parameters/RightEyeX''"
    using assms(1) unfolding recognized_def by blast
  then show ?thesis
  proof cases
    case 1
    with assms(2) show ?thesis
      by (simp add: record_channels_def on_EyesY_def)
  next
    case 2
    with assms(2) show ?thesis
      by (simp add: record_channels_def on_EyesY_def on_LeftEyeX_def)
  next
    case 3
    with assms(2) show ?thesis
      by (simp add: record_channels_def on_EyesY_def on_LeftEyeX_def on_RightEyeX_def)
  qed
qed

lemma rejected_unchanged:
  assumes "\<not> all_present s" and "\<not> recognized m \<or> malformed m"
  shows "ProcessMessage now m s = s"
proof (cases "recognized m")
  case False
  then have "record_channels m s = Inr s"
    by (rule record_channels_unrecognized)
  with assms(1) show ?thesis
    using ProcessMessage_incomplete [of m s s now] by simp
next
  case True
  with assms(2) have "malformed m" by simp
  then obtain e where "read_float (ArgumentStream m) = Inl e"
    by (cases "read_float (ArgumentStream m)") (simp_all add: malformed_def)
  with True have "record_channels m s = Inl (e, s)"
    by (rule record_channels_malformed)
  then show ?thesis
    by (rule ProcessMessage_throw)
qed

section \<open>Availability and \<open>getGaze\<close>\<close>

text \<open>The time stamp after a run is that of its last combination, and the clock's epoch
  when the run has none; availability compares the clock reading with it.\<close>

lemma m_lastReceivedTime_run:
  "m_lastReceivedTime (run ms (started session)) =
      (case last_combination ms (started session) of None \<Rightarrow> 0 | Some (t, g) \<Rightarrow> t)"
  using run_last_combination [of ms "started session"]
  by (simp add: started_fields split: option.splits)

lemma m_latestGaze_run:
  "last_combination ms (started session) = Some (t, g) \<Longrightarrow>
     m_latestGaze (run ms (started session)) = g"
  using run_last_combination [of ms "started session"]
  by simp

lemma isGazeAvailable_run:
  "isGazeAvailable time now (run ms (started session))
     = (case last_combination ms (started session) of
          None \<Rightarrow> now < 1000000000
        | Some (t, g) \<Rightarrow> now - t < 1000000000)"
  by (simp add: isGazeAvailable_def m_lastReceivedTime_run split: option.splits)

text \<open>
  Claim C3. The clock of line 61 counts nanoseconds from its epoch, and a reading taken
  by a running tracker is at least one second past it. For every such reading and after
  any run of messages on a started tracker, \<open>isGazeAvailable\<close> is true if and only if
  the run has produced a vector and the reading minus the time stamp of the last vector
  produced is below \<open>10\<^sup>9\<close> nanoseconds; in particular it is false when no triple
  has completed. The result does not depend on the argument \<open>time\<close>.
\<close>

theorem C3_availability:
  assumes "1000000000 \<le> now"
  shows "isGazeAvailable time now (run ms (started session))
           = (case last_combination ms (started session) of
                None \<Rightarrow> False
              | Some (t, g) \<Rightarrow> now - t < 1000000000)
       \<and> (last_combination ms (started session) = None \<longrightarrow>
            \<not> isGazeAvailable time now (run ms (started session)))
       \<and> isGazeAvailable time now s = isGazeAvailable time' now s"
proof -
  have "isGazeAvailable time now (run ms (started session))
           = (case last_combination ms (started session) of
                None \<Rightarrow> False
              | Some (t, g) \<Rightarrow> now - t < 1000000000)"
    using assms by (simp add: isGazeAvailable_run split: option.splits)
  moreover have "isGazeAvailable time now s = isGazeAvailable time' now s"
    by (simp add: isGazeAvailable_def)
  ultimately show ?thesis by simp
qed

theorem C3_availability_witness:
  "(1000000000 :: int) \<le> 1000000002
   \<and> isGazeAvailable 0 1000000002
      (run [(1, msg_EyesY 0), (2, msg_LeftEyeX 0), (3, msg_RightEyeX 0)] (started 7))
   \<and> (1000000000 :: int) \<le> 1000000003
   \<and> \<not> isGazeAvailable 0 1000000003
      (run [(1, msg_EyesY 0), (2, msg_LeftEyeX 0), (3, msg_RightEyeX 0)] (started 7))
   \<and> (1000000000 :: int) \<le> 1000000000
   \<and> last_combination [] (started 7) = None
   \<and> \<not> isGazeAvailable 0 1000000000 (run [] (started 7))"
proof -
  let ?ms = "[(1, msg_EyesY 0), (2, msg_LeftEyeX 0), (3, msg_RightEyeX 0)]"
  have a: "(1000000000 :: int) \<le> 1000000002" and b: "(1000000000 :: int) \<le> 1000000003"
    and c: "(1000000000 :: int) \<le> 1000000000"
    by simp_all
  have n: "last_combination [] (started 7) = None" by simp
  from C3_availability [OF a, of 0 ?ms 7]
  have 1: "isGazeAvailable 0 1000000002 (run ?ms (started 7))"
    unfolding last_three_zero by simp
  from C3_availability [OF b, of 0 ?ms 7]
  have 2: "\<not> isGazeAvailable 0 1000000003 (run ?ms (started 7))"
    unfolding last_three_zero by simp
  from C3_availability [OF c, of 0 "[]" 7] n
  have 3: "\<not> isGazeAvailable 0 1000000000 (run [] (started 7))"
    by blast
  from a b c n 1 2 3 show ?thesis by blast
qed

text \<open>
  Claim C4. For every clock reading of a running tracker (at least one second past the
  epoch) and after any run of messages on a started tracker: when \<open>isGazeAvailable\<close> is
  false, \<open>getGaze\<close> returns false and leaves the caller's vector as it was; otherwise the
  run has a last combination, and \<open>getGaze\<close> returns true with exactly the vector of that
  combination. In both cases the tracker is unchanged.
\<close>

theorem C4_getGaze:
  assumes "1000000000 \<le> now"
  shows "(\<not> isGazeAvailable time now (run ms (started session)) \<longrightarrow>
            getGaze time now (run ms (started session)) out
              = (False, out, run ms (started session)))
       \<and> (isGazeAvailable time now (run ms (started session)) \<longrightarrow>
            (\<exists>t g. last_combination ms (started session) = Some (t, g)
                 \<and> getGaze time now (run ms (started session)) out
                     = (True, g, run ms (started session))))"
proof (intro conjI impI)
  assume "\<not> isGazeAvailable time now (run ms (started session))"
  then show "getGaze time now (run ms (started session)) out
              = (False, out, run ms (started session))"
    by (simp add: getGaze_def)
next
  assume av: "isGazeAvailable time now (run ms (started session))"
  with assms obtain t g where l: "last_combination ms (started session) = Some (t, g)"
    by (cases "last_combination ms (started session)") (auto simp: isGazeAvailable_run)
  from av have "getGaze time now (run ms (started session)) out
                  = (True, m_latestGaze (run ms (started session)), run ms (started session))"
    by (simp add: getGaze_def)
  with l show "\<exists>t g. last_combination ms (started session) = Some (t, g)
                 \<and> getGaze time now (run ms (started session)) out
                     = (True, g, run ms (started session))"
    by (simp add: m_latestGaze_run)
qed

theorem C4_getGaze_witness:
  "(1000000000 :: int) \<le> 1000000002
   \<and> isGazeAvailable 0 1000000002
      (run [(1, msg_EyesY 0), (2, msg_LeftEyeX 0), (3, msg_RightEyeX 0)] (started 7))
   \<and> last_combination [(1, msg_EyesY 0), (2, msg_LeftEyeX 0), (3, msg_RightEyeX 0)] (started 7)
       = Some (3, \<lparr>x = 0, y = 0, z = - 1\<rparr>)
   \<and> getGaze 0 1000000002
      (run [(1, msg_EyesY 0), (2, msg_LeftEyeX 0), (3, msg_RightEyeX 0)] (started 7))
      \<lparr>x = 9, y = 9, z = 9\<rparr>
     = (True, \<lparr>x = 0, y = 0, z = - 1\<rparr>,
        run [(1, msg_EyesY 0), (2, msg_LeftEyeX 0), (3, msg_RightEyeX 0)] (started 7))
   \<and> (1000000000 :: int) \<le> 1000000003
   \<and> \<not> isGazeAvailable 0 1000000003
      (run [(1, msg_EyesY 0), (2, msg_LeftEyeX 0), (3, msg_RightEyeX 0)] (started 7))
   \<and> getGaze 0 1000000003
      (run [(1, msg_EyesY 0), (2, msg_LeftEyeX 0), (3, msg_RightEyeX 0)] (started 7))
      \<lparr>x = 9, y = 9, z = 9\<rparr>
     = (False, \<lparr>x = 9, y = 9, z = 9\<rparr>,
        run [(1, msg_EyesY 0), (2, msg_LeftEyeX 0), (3, msg_RightEyeX 0)] (started 7))"
proof -
  let ?ms = "[(1, msg_EyesY 0), (2, msg_LeftEyeX 0), (3, msg_RightEyeX 0)]"
  let ?out = "\<lparr>x = 9, y = 9, z = 9\<rparr>"
  have a: "(1000000000 :: int) \<le> 1000000002" and b: "(1000000000 :: int) \<le> 1000000003"
    by simp_all
  have av: "isGazeAvailable 0 1000000002 (run ?ms (started 7))"
    and nav: "\<not> isGazeAvailable 0 1000000003 (run ?ms (started 7))"
    unfolding isGazeAvailable_run last_three_zero by simp_all
  from C4_getGaze [OF a, of 0 ?ms 7 ?out] av
  have 1: "getGaze 0 1000000002 (run ?ms (started 7)) ?out
            = (True, \<lparr>x = 0, y = 0, z = - 1\<rparr>, run ?ms (started 7))"
    unfolding last_three_zero by auto
  from C4_getGaze [OF b, of 0 ?ms 7 ?out] nav
  have 2: "getGaze 0 1000000003 (run ?ms (started 7)) ?out = (False, ?out, run ?ms (started 7))"
    by blast
  from a b av nav 1 2 last_three_zero show ?thesis by blast
qed

section \<open>Rejected datagrams\<close>

text \<open>A message that \<open>ProcessMessage\<close> receives with an address pattern that is not one
  of the three recognised ones, or with an argument list that is not exactly one float,
  leaves the whole tracker unchanged after any run on a started tracker; the exception
  of the extraction is caught by the handler of line 149, and the run goes on as if the
  message had not been received.\<close>

lemma rejected_message_dropped:
  assumes "\<not> recognized m \<or> malformed m"
  shows "ProcessMessage now m (run ms (started session)) = run ms (started session)
       \<and> run (ms @ (now, m) # ms') (started session) = run (ms @ ms') (started session)"
proof -
  have "\<not> all_present (run ms (started session))"
    by (simp add: run_not_all_present started_not_all_present)
  then have "ProcessMessage now m (run ms (started session)) = run ms (started session)"
    using assms by (rule rejected_unchanged)
  then show ?thesis
    by (simp add: run_append)
qed

text \<open>As long as every datagram decodes, the receive loop is the run of the messages.\<close>

lemma Run_WellFormed:
  "Run (map (\<lambda>(now, m). (now, WellFormed m)) ms) s = Inr (run ms s)"
  by (induction ms arbitrary: s) (auto simp: ProcessPacket_def)


section \<open>Life cycle\<close>

lemma listening_append: "listening (cs @ cs') r = listening cs' (listening cs r)"
  by (induction cs r rule: listening.induct) auto

text \<open>
  Claim C6 says that \<open>stop\<close>, like destruction, breaks the receive loop and joins the
  listening thread. The body of \<open>stop\<close> is empty: after \<open>start\<close> and \<open>stop\<close> no break and
  no join has been issued and the listening thread is still running.
\<close>

theorem C6_counterexample:
  "fst (stop (snd (start 7 ETVREyeTracker_init))) = []
   \<and> listening (fst (start 7 ETVREyeTracker_init)
                 @ fst (stop (snd (start 7 ETVREyeTracker_init)))) False"
  by (simp add: start_def stop_def)

text \<open>
  Claim C6, amended. The destructor of a started tracker issues the asynchronous break
  and then joins the listening thread, so that the thread no longer runs when the
  destructor returns, whatever calls came before. \<open>stop\<close> issues no call and leaves the
  tracker as it is: whether the thread runs is the same after \<open>stop\<close> as before.
\<close>

theorem C6_teardown:
  "m_started s \<Longrightarrow>
     destructor s = [AsynchronousBreak, Join]
     \<and> \<not> listening (cs @ destructor s) r
     \<and> stop s = ([], s)
     \<and> listening (cs @ fst (stop s)) r = listening cs r"
  by (simp add: destructor_def stop_def listening_append)

theorem C6_teardown_witness:
  "m_started (snd (start 7 ETVREyeTracker_init))
   \<and> destructor (snd (start 7 ETVREyeTracker_init)) = [AsynchronousBreak, Join]
   \<and> \<not> listening (fst (start 7 ETVREyeTracker_init)
                     @ destructor (snd (start 7 ETVREyeTracker_init))) False
   \<and> stop (snd (start 7 ETVREyeTracker_init)) = ([], snd (start 7 ETVREyeTracker_init))
   \<and> listening (fst (start 7 ETVREyeTracker_init)
                 @ fst (stop (snd (start 7 ETVREyeTracker_init)))) False"
proof -
  have h: "m_started (snd (start 7 ETVREyeTracker_init))"
    by (simp add: start_def)
  have l: "listening (fst (start 7 ETVREyeTracker_init)) False"
    by (simp add: start_def)
  from C6_teardown [OF h, of "fst (start 7 ETVREyeTracker_init)" False] h l
  show ?thesis by blast
qed

section \<open>The vertical sample after a combination\<close>

text \<open>
  Claim C9. A combination leaves \<open>m_latestY\<close> present with the value it combined. A
  following \<open>LeftEyeX\<close> message alone does not complete a triple; a \<open>RightEyeX\<close> message
  after it does, with no new \<open>EyesY\<close> message: the vector stored is the one of the two
  new horizontal values and the old vertical value, stamped with the time of the second
  message. The same holds when the two messages come in the other order.
\<close>

theorem C9_vertical_reused:
  assumes "record_channels m s = Inr s1"
    and "m_latestLeftX s1 = Some L" and "m_latestRightX s1 = Some R"
    and "m_latestY s1 = Some V"
  shows "m_latestY (ProcessMessage now m s) = Some V
       \<and> \<not> completes (msg_LeftEyeX L') (ProcessMessage now m s)
       \<and> completes (msg_RightEyeX R')
            (ProcessMessage t1 (msg_LeftEyeX L') (ProcessMessage now m s))
       \<and> m_latestGaze (run [(t1, msg_LeftEyeX L'), (t2, msg_RightEyeX R')]
            (ProcessMessage now m s)) = unitVector R' L' V
       \<and> m_lastReceivedTime (run [(t1, msg_LeftEyeX L'), (t2, msg_RightEyeX R')]
            (ProcessMessage now m s)) = t2
       \<and> \<not> completes (msg_RightEyeX R') (ProcessMessage now m s)
       \<and> completes (msg_LeftEyeX L')
            (ProcessMessage t1 (msg_RightEyeX R') (ProcessMessage now m s))
       \<and> m_latestGaze (run [(t1, msg_RightEyeX R'), (t2, msg_LeftEyeX L')]
            (ProcessMessage now m s)) = unitVector R' L' V
       \<and> m_lastReceivedTime (run [(t1, msg_RightEyeX R'), (t2, msg_LeftEyeX L')]
            (ProcessMessage now m s)) = t2"
  unfolding ProcessMessage_complete [OF assms, of now]
  using assms(4)
  by (simp add: completes_def all_present_def ProcessMessage_def try_block_def
      record_channels_def on_EyesY_def on_LeftEyeX_def on_RightEyeX_def combine_def
      msg_LeftEyeX_def msg_RightEyeX_def)

theorem C9_vertical_reused_witness:
  "record_channels (msg_RightEyeX 0)
      (run [(1, msg_EyesY (1/2)), (2, msg_LeftEyeX 0)] (started 7))
     = Inr ((started 7)\<lparr>m_latestY := Some (1/2), m_latestLeftX := Some 0,
              m_latestRightX := Some 0\<rparr>)
   \<and> m_latestY (ProcessMessage 3 (msg_RightEyeX 0)
        (run [(1, msg_EyesY (1/2)), (2, msg_LeftEyeX 0)] (started 7))) = Some (1/2)
   \<and> m_latestGaze (run [(4, msg_LeftEyeX 1), (5, msg_RightEyeX 1)]
        (ProcessMessage 3 (msg_RightEyeX 0)
          (run [(1, msg_EyesY (1/2)), (2, msg_LeftEyeX 0)] (started 7))))
       = unitVector 1 1 (1/2)
   \<and> m_lastReceivedTime (run [(4, msg_LeftEyeX 1), (5, msg_RightEyeX 1)]
        (ProcessMessage 3 (msg_RightEyeX 0)
          (run [(1, msg_EyesY (1/2)), (2, msg_LeftEyeX 0)] (started 7))))
       = 5"
proof -
  let ?s = "run [(1, msg_EyesY (1/2)), (2, msg_LeftEyeX 0)] (started 7)"
  let ?s1 = "(started 7)\<lparr>m_latestY := Some (1/2), m_latestLeftX := Some 0,
              m_latestRightX := Some 0\<rparr>"
  have r: "record_channels (msg_RightEyeX 0) ?s = Inr ?s1"
    unfolding run_EyesY_LeftEyeX by (simp add: record_RightEyeX)
  from C9_vertical_reused [OF r, of 0 0 "1/2" 3 1 1 4 5] r
  show ?thesis by simp
qed

end
